theory Spec2Isabelle
  imports Main
begin

section \<open>The BigQuery backup function: data model\<close>

text \<open>
  The handler of \<^verbatim>\<open>bigquery_backup/function.go\<close> exports one BigQuery table to Cloud
  Storage. Go strings are byte sequences and are modelled as \<open>string\<close>; a Go \<open>error\<close>
  value is modelled by its message, and a possibly-nil error as \<open>error option\<close>
  (\<open>None\<close> is \<open>nil\<close>).
\<close>

type_synonym error = string

definition csvFormat :: string where "csvFormat = ''CSV''"
definition jsonFormat :: string where "jsonFormat = ''JSON''"
definition avroFormat :: string where "avroFormat = ''AVRO''"
definition parquetFormat :: string where "parquetFormat = ''PARQUET''"

definition gzipCompression :: string where "gzipCompression = ''GZIP''"
definition snappyCompression :: string where "snappyCompression = ''SNAPPY''"
definition zstdCompression :: string where "zstdCompression = ''ZSTD''"
definition deflateCompression :: string where "deflateCompression = ''DEFLATE''"

lemmas format_defs = csvFormat_def jsonFormat_def avroFormat_def parquetFormat_def
lemmas compression_defs =
  gzipCompression_def snappyCompression_def zstdCompression_def deflateCompression_def

record backupParams =
  projectID :: string
  sourceDatasetID :: string
  backupTableID :: string
  storageBucket :: string
  compressionType :: string
  destinationFormat :: string

record postBodyParams =
  DatasetName :: string
  TableName :: string
  StorageBucket :: string
  Format :: string
  Compression :: string

section \<open>Library functions the handler calls\<close>

subsection \<open>fmt.Sprintf on string operands\<close>

text \<open>
  Every format string of the program is a literal built from plain text and the verbs
  \<open>%s\<close> and \<open>%v\<close>, and every operand is a string or an error. On a string operand the two
  verbs print the operand unchanged. \<open>Sprintf\<close> interprets the format string from left to
  right as Go does: \<open>%%\<close> prints a percent sign, a verb with no operand left prints
  \<open>%!s(MISSING)\<close>, operands left over are reported after the text as
  \<open>%!(EXTRA string=..., ...)\<close>, and any other verb character \<open>c\<close> prints
  \<open>%!c(string=...)\<close>. Flags, widths and precisions do not occur in the program and are
  not interpreted.
\<close>

fun EXTRA :: "string list \<Rightarrow> string" where
  "EXTRA [] = []"
| "EXTRA [a] = ''string='' @ a"
| "EXTRA (a # b # bs) = ''string='' @ a @ '', '' @ EXTRA (b # bs)"

fun Sprintf :: "string \<Rightarrow> string list \<Rightarrow> string" where
  "Sprintf [] [] = []"
| "Sprintf [] (a # as) = ''%!(EXTRA '' @ EXTRA (a # as) @ '')''"
| "Sprintf (c # cs) as =
     (if c \<noteq> CHR ''%'' then c # Sprintf cs as
      else (case cs of
              [] \<Rightarrow> ''%!(NOVERB)'' @ Sprintf [] as
            | v # rest \<Rightarrow>
                (if v = CHR ''%'' then CHR ''%'' # Sprintf rest as
                 else (case as of
                         [] \<Rightarrow> ''%!'' @ [v] @ ''(MISSING)'' @ Sprintf rest []
                       | a # as' \<Rightarrow>
                           (if v = CHR ''s'' \<or> v = CHR ''v'' then a
                            else ''%!'' @ [v] @ ''(string='' @ a @ '')'')
                           @ Sprintf rest as'))))"

text \<open>
  An error operand is only ever printed with \<open>%v\<close>: the text is the error's message, and
  \<open><nil>\<close> for a nil error.
\<close>

definition verr :: "error option \<Rightarrow> string" where
  "verr err = (case err of None \<Rightarrow> ''<nil>'' | Some e \<Rightarrow> e)"

subsection \<open>The logging sink and the handler's observable events\<close>

datatype severity = Info | Error

text \<open>
  An event is a call that leaves the handler: an entry handed to the logger
  \<open>bigquery-backup\<close>, a line printed on standard output, or a request to BigQuery or Cloud
  Storage. The handler's effects are the list of its events in program order; every
  function that has an effect takes the events so far and returns them extended.
\<close>

record GCSReference =
  URIs :: "string list"
  gcs_DestinationFormat :: string
  gcs_Compression :: string

record Extractor =
  src_ProjectID :: string
  src_DatasetID :: string
  src_TableID :: string
  Dst :: GCSReference
  DisableHeader :: bool

type_synonym Job = string

datatype event =
    Log severity string
  | Println string
  | DatasetMetadata string
  | TableMetadata string string
  | StorageNewClient
  | BucketAttrs string
  | ExtractorRun Extractor
  | JobWait Job

type_synonym trace = "event list"

definition logInfo :: "string \<Rightarrow> trace \<Rightarrow> error option \<times> trace" where
  "logInfo msg tr = (None, tr @ [Log Info msg])"

definition logError :: "string \<Rightarrow> trace \<Rightarrow> error option \<times> trace" where
  "logError msg tr = (None, tr @ [Log Error msg])"

section \<open>Format and compression resolution\<close>

text \<open>
  The methods on \<open>*backupParams\<close> mutate the receiver; the model returns the updated
  record next to the Go return values and the events.
\<close>

definition setCSVAndJSONCompression ::
  "backupParams \<Rightarrow> trace \<Rightarrow> error option \<times> backupParams \<times> trace" where
  "setCSVAndJSONCompression bp0 tr0 =
     (let bp = bp0\<lparr>compressionType := gzipCompression\<rparr>;
          lv = Sprintf ''Backup format: %s, Backup compression: %s''
                 [destinationFormat bp, compressionType bp];
          (err, tr) = logInfo lv tr0
      in if err \<noteq> None then (err, bp, tr) else (None, bp, tr))"

definition setAvroParquetCompression ::
  "backupParams \<Rightarrow> trace \<Rightarrow> error option \<times> backupParams \<times> trace" where
  "setAvroParquetCompression bp0 tr0 =
     (if compressionType bp0 = ''''
      then
        let bp = bp0\<lparr>compressionType := snappyCompression\<rparr>;
            lv = Sprintf ''BigQuery Table will be Backup format: %s, Backup compression: %s''
                   [destinationFormat bp, compressionType bp];
            (err, tr) = logInfo lv tr0
        in if err \<noteq> None then (err, bp, tr)
           else if compressionType bp = deflateCompression
                   \<or> compressionType bp = snappyCompression
           then
             let lv2 = Sprintf ''Backup format: %s, Backup compression: %s''
                         [destinationFormat bp, compressionType bp];
                 (err2, tr2) = logInfo lv2 tr
             in if err2 \<noteq> None then (err2, bp, tr2) else (None, bp, tr2)
           else (None, bp\<lparr>compressionType := snappyCompression\<rparr>, tr)
      else (None, bp0, tr0))"

definition checkBackupFormat ::
  "backupParams \<Rightarrow> trace \<Rightarrow> (bool \<times> error option) \<times> backupParams \<times> trace" where
  "checkBackupFormat bp tr =
     (if destinationFormat bp = csvFormat then
        (let (err, bp', tr') = setCSVAndJSONCompression bp tr
         in if err \<noteq> None then ((False, err), bp', tr') else ((True, None), bp', tr'))
      else if destinationFormat bp = jsonFormat then
        (let (err, bp', tr') = setCSVAndJSONCompression bp tr
         in if err \<noteq> None then ((False, err), bp', tr') else ((True, None), bp', tr'))
      else if destinationFormat bp = avroFormat then
        (let (err, bp', tr') = setAvroParquetCompression bp tr
         in if err \<noteq> None then ((False, err), bp', tr') else ((True, None), bp', tr'))
      else if destinationFormat bp = parquetFormat then
        (let (err, bp', tr') = setAvroParquetCompression bp tr
         in if err \<noteq> None then ((False, err), bp', tr') else ((True, None), bp', tr'))
      else
        ((True, None),
         bp\<lparr>destinationFormat := avroFormat, compressionType := snappyCompression\<rparr>,
         tr))"

text \<open>The parameters as \<open>checkBackupFormat\<close> leaves them.\<close>

definition resolved :: "backupParams \<Rightarrow> trace \<Rightarrow> backupParams" where
  "resolved bp tr = fst (snd (checkBackupFormat bp tr))"

section \<open>The services the handler talks to\<close>

text \<open>
  The process environment, the clock, BigQuery and Cloud Storage are outside the program.
  A value of \<open>services\<close> fixes what each of their calls returns during one request, so that
  every branch the source takes on such a result is a branch of the model:
  \<^item> \<open>Getenv\<close> is \<open>os.Getenv\<close>;
  \<^item> \<open>time_Now\<close> is the calendar date \<open>time.Now()\<close> reads;
  \<^item> \<open>Dataset_Metadata d\<close> and \<open>Table_Metadata d t\<close> are the \<open>Metadata\<close> calls: \<open>Inr id\<close> is
    a metadata value whose \<open>FullID\<close> is \<open>id\<close>, \<open>Inl e\<close> is a nil metadata pointer returned
    with the error \<open>e\<close>;
  \<^item> \<open>storage_NewClient\<close> and \<open>Bucket_Attrs b\<close> are the error results of \<open>storage.NewClient\<close>
    and \<open>Attrs\<close>;
  \<^item> \<open>Extractor_Run x\<close> is \<open>x.Run\<close>: the started job (known by its ID) or an error;
  \<^item> \<open>Job_Wait j\<close> is \<open>j.Wait\<close>: \<open>Inl e\<close> is an error of the wait itself, \<open>Inr s\<close> a final
    status whose \<open>Err()\<close> is \<open>s\<close>.
  The logging client and the BigQuery client are process-wide handles created once under
  \<open>sync.Once\<close>. The model describes a process in which both have been created; a creation
  that fails leaves a nil handle, and what the client libraries do on a nil handle is not
  part of the model. A log event records that the handler handed the entry to the logger.
\<close>

record Time =
  Year :: nat
  Month :: nat
  Day :: nat

record services =
  Getenv :: "string \<Rightarrow> string"
  time_Now :: Time
  Dataset_Metadata :: "string \<Rightarrow> error + string"
  Table_Metadata :: "string \<Rightarrow> string \<Rightarrow> error + string"
  storage_NewClient :: "error option"
  Bucket_Attrs :: "string \<Rightarrow> error option"
  Extractor_Run :: "Extractor \<Rightarrow> error + Job"
  Job_Wait :: "Job \<Rightarrow> error + error option"

text \<open>
  The request is known by what \<open>json.NewDecoder(r.Body).Decode(&pb)\<close> makes of its body:
  the decoded structure, in which a key that is absent from the body leaves the empty
  string, and the decoder's error.
\<close>

record Request =
  Decode :: "postBodyParams \<times> error option"

text \<open>
  A call either returns, or panics on a nil pointer, or ends the process through
  \<open>log.Fatalf\<close>.
\<close>

datatype 'a result = Return 'a | Panic | Exit string

subsection \<open>strings.TrimSpace, strings.ToLower and Time.Format\<close>

text \<open>
  \<open>strings.TrimSpace\<close> removes the leading and the trailing white space of a string, where
  white space is what \<open>unicode.IsSpace\<close> accepts: the six ASCII characters tab, line feed,
  vertical tab, form feed, carriage return and space, and the code points U+0085, U+00A0,
  U+1680, U+2000 to U+200A, U+2028, U+2029, U+202F, U+205F and U+3000. A Go string holds
  UTF-8, so \<open>spaceRunes\<close> lists these code points by their encodings. The first code point
  of a string is white space exactly when the string starts with one of the encodings, and
  the last one exactly when it ends with one: a byte sequence that is not a valid encoding
  decodes to the replacement character, which is not white space, and no encoding in the
  list is the beginning or the end of another.
\<close>

definition spaceRunes :: "string list" where
  "spaceRunes =
     [[CHR 0x09], [CHR 0x0A], [CHR 0x0B], [CHR 0x0C], [CHR 0x0D], [CHR 0x20],
      [CHR 0xC2, CHR 0x85], [CHR 0xC2, CHR 0xA0],
      [CHR 0xE1, CHR 0x9A, CHR 0x80],
      [CHR 0xE2, CHR 0x80, CHR 0x80], [CHR 0xE2, CHR 0x80, CHR 0x81],
      [CHR 0xE2, CHR 0x80, CHR 0x82], [CHR 0xE2, CHR 0x80, CHR 0x83],
      [CHR 0xE2, CHR 0x80, CHR 0x84], [CHR 0xE2, CHR 0x80, CHR 0x85],
      [CHR 0xE2, CHR 0x80, CHR 0x86], [CHR 0xE2, CHR 0x80, CHR 0x87],
      [CHR 0xE2, CHR 0x80, CHR 0x88], [CHR 0xE2, CHR 0x80, CHR 0x89],
      [CHR 0xE2, CHR 0x80, CHR 0x8A],
      [CHR 0xE2, CHR 0x80, CHR 0xA8], [CHR 0xE2, CHR 0x80, CHR 0xA9],
      [CHR 0xE2, CHR 0x80, CHR 0xAF],
      [CHR 0xE2, CHR 0x81, CHR 0x9F],
      [CHR 0xE3, CHR 0x80, CHR 0x80]]"

text \<open>
  \<open>leadingRune rs s\<close> is the length of the member of \<open>rs\<close> that \<open>s\<close> starts with, and 0
  when there is none; \<open>trimLeading rs\<close> removes such members from the front as long as
  there is one.
\<close>

definition leadingRune :: "string list \<Rightarrow> string \<Rightarrow> nat" where
  "leadingRune rs s =
     (case List.find (\<lambda>p. take (length p) s = p) rs of
        Some p \<Rightarrow> length p
      | None \<Rightarrow> 0)"

function trimLeading :: "string list \<Rightarrow> string \<Rightarrow> string" where
  "trimLeading rs s =
     (if leadingRune rs s = 0 then s else trimLeading rs (drop (leadingRune rs s) s))"
  by pat_completeness auto
termination
proof (relation "measure (\<lambda>(rs, s). length s)")
  show "wf (measure (\<lambda>(rs, s). length s))"
    by simp
next
  fix rs :: "string list" and s :: string
  assume a: "leadingRune rs s \<noteq> 0"
  have "s \<noteq> []"
  proof
    assume "s = []"
    with a show False
      by (auto simp add: leadingRune_def find_Some_iff split: option.splits)
  qed
  with a show "((rs, drop (leadingRune rs s) s), (rs, s)) \<in> measure (\<lambda>(rs, s). length s)"
    by simp
qed

declare trimLeading.simps [simp del]

text \<open>The trailing white space is the leading white space of the reversed string.\<close>

definition TrimSpace :: "string \<Rightarrow> string" where
  "TrimSpace s = rev (trimLeading (map rev spaceRunes) (rev (trimLeading spaceRunes s)))"

text \<open>
  \<open>strings.ToLower\<close> is modelled on ASCII text, which is what the format names are:
  \<open>ToLower\<close> maps \<open>A\<close>..\<open>Z\<close> to \<open>a\<close>..\<open>z\<close> and leaves every other byte alone.
\<close>

definition toLower :: "char \<Rightarrow> char" where
  "toLower c =
     (let n = of_char c :: nat
      in if 65 \<le> n \<and> n \<le> 90 then char_of (n + 32) else c)"

definition ToLower :: "string \<Rightarrow> string" where
  "ToLower s = map toLower s"

text \<open>
  The layout \<open>2006-01-02\<close> prints the year in at least four digits and the month and the
  day in at least two, padded with zeros.
\<close>

fun itoa :: "nat \<Rightarrow> string" where
  "itoa n = (if n < 10 then [char_of (48 + n)] else itoa (n div 10) @ [char_of (48 + n mod 10)])"

declare itoa.simps [simp del]

definition appendInt :: "nat \<Rightarrow> nat \<Rightarrow> string" where
  "appendInt x width = (let s = itoa x in replicate (width - length s) CHR ''0'' @ s)"

definition Format_2006_01_02 :: "Time \<Rightarrow> string" where
  "Format_2006_01_02 t =
     appendInt (Year t) 4 @ ''-'' @ appendInt (Month t) 2 @ ''-'' @ appendInt (Day t) 2"

section \<open>Setup\<close>

definition setProjectID :: "services \<Rightarrow> backupParams \<Rightarrow> error option \<times> backupParams" where
  "setProjectID sv bp =
     (let projectID' = Getenv sv ''GCP_PROJECT''
      in if projectID' = '''' \<or> TrimSpace projectID' = ''''
         then (Some ''GCP_PROJECT environment variable is not set'', bp)
         else (None, bp\<lparr>projectID := projectID'\<rparr>))"

text \<open>
  \<open>setLogger\<close> and \<open>setBigQueryClient\<close> create the two handles under \<open>sync.Once\<close> and return
  \<open>nil\<close> on every path: the error of the creation stays inside the closure.
\<close>

definition setLogger :: "backupParams \<Rightarrow> error option" where
  "setLogger bp = None"

definition setBigQueryClient :: "backupParams \<Rightarrow> error option" where
  "setBigQueryClient bp = None"

definition decodePostBody :: "Request \<Rightarrow> postBodyParams \<times> error option" where
  "decodePostBody r =
     (let (pb, err) = Decode r
      in if err \<noteq> None then (pb, err) else (pb, None))"

definition checkPostBody :: "postBodyParams \<Rightarrow> trace \<Rightarrow> (bool \<times> error option) \<times> trace" where
  "checkPostBody pb tr =
     (if DatasetName pb = '''' then
        (let (err, tr') = logError ''Missing DatasetName in Post Body'' tr
         in ((False, err), tr'))
      else if TableName pb = '''' then
        (let (err, tr') = logError ''Missing TableName in Post Body'' tr
         in ((False, err), tr'))
      else if StorageBucket pb = '''' then
        (let (err, tr') = logError ''Missing StorageBucket in Post Body'' tr
         in ((False, err), tr'))
      else ((True, None), tr))"

definition setBackupParams :: "backupParams \<Rightarrow> postBodyParams \<Rightarrow> backupParams" where
  "setBackupParams bp pb =
     bp\<lparr>sourceDatasetID := DatasetName pb,
        backupTableID := TableName pb,
        storageBucket := StorageBucket pb,
        destinationFormat := Format pb,
        compressionType := Compression pb\<rparr>"

definition handleSetup :: "Request \<Rightarrow> backupParams \<Rightarrow> trace \<Rightarrow> bool \<times> backupParams \<times> trace" where
  "handleSetup r bp tr =
     (let (pb, err) = decodePostBody r
      in if err \<noteq> None then
           (let (_, tr1) = logError (Sprintf ''Failed to decode POST body: %v'' [verr err]) tr
            in (True, bp, tr1))
         else
           let ((ok, err), tr1) = checkPostBody pb tr
           in if \<not> ok \<or> err \<noteq> None then
                (let (_, tr2) = logError (Sprintf ''Invalid POST body: %v'' [verr err]) tr1
                 in (True, bp, tr2))
              else
                let bp1 = setBackupParams bp pb;
                    p = Sprintf ''Backup params: %s, %s, %s, %s''
                          [projectID bp1, sourceDatasetID bp1, backupTableID bp1,
                           storageBucket bp1];
                    (err, tr2) = logInfo p tr1
                in if err \<noteq> None then
                     (let (_, tr3) =
                            logError (Sprintf ''Failed to set backup params: %v'' [verr err]) tr2
                      in (True, bp1, tr3))
                   else (False, bp1, tr2))"

definition setupExtractor :: "services \<Rightarrow> backupParams \<Rightarrow> Extractor" where
  "setupExtractor sv bp =
     (let backup = Sprintf ''%s.%s'' [backupTableID bp, Format_2006_01_02 (time_Now sv)];
          gcsURI = Sprintf ''gs://%s/%s/%s/%s-*.%s''
                     [storageBucket bp, sourceDatasetID bp, backup, backupTableID bp,
                      ToLower (destinationFormat bp)]
      in \<lparr>src_ProjectID = projectID bp,
          src_DatasetID = sourceDatasetID bp,
          src_TableID = backupTableID bp,
          Dst = \<lparr>URIs = [gcsURI],
                 gcs_DestinationFormat = destinationFormat bp,
                 gcs_Compression = compressionType bp\<rparr>,
          DisableHeader = True\<rparr>)"

section \<open>Validation of the dataset, the table and the bucket\<close>

definition validateDataset ::
  "services \<Rightarrow> backupParams \<Rightarrow> trace \<Rightarrow> (bool \<times> error option) \<times> trace" where
  "validateDataset sv bp tr =
     (let tr1 = tr @ [DatasetMetadata (sourceDatasetID bp)]
      in case Dataset_Metadata sv (sourceDatasetID bp) of
           Inl err \<Rightarrow> ((False, Some err), tr1)
         | Inr FullID \<Rightarrow>
             if FullID = projectID bp @ '':'' @ sourceDatasetID bp
             then ((True, None), tr1)
             else ((False, None), tr1))"

text \<open>
  \<open>validateTable\<close> prints \<open>md.FullID\<close> before it looks at the error: when the fetch failed,
  \<open>md\<close> is nil and the field access panics.
\<close>

definition validateTable ::
  "services \<Rightarrow> backupParams \<Rightarrow> trace \<Rightarrow> (bool \<times> error option) result \<times> trace" where
  "validateTable sv bp tr =
     (let tr1 = tr @ [TableMetadata (sourceDatasetID bp) (backupTableID bp)]
      in case Table_Metadata sv (sourceDatasetID bp) (backupTableID bp) of
           Inl err \<Rightarrow> (Panic, tr1)
         | Inr FullID \<Rightarrow>
             let tr2 = tr1 @ [Println FullID]
             in if FullID = projectID bp @ '':'' @ sourceDatasetID bp @ ''.'' @ backupTableID bp
                then (Return (True, None), tr2)
                else (Return (False, None), tr2))"

definition validateStorageBucket ::
  "services \<Rightarrow> backupParams \<Rightarrow> trace \<Rightarrow> (bool \<times> error option) \<times> trace" where
  "validateStorageBucket sv bp tr =
     (let tr1 = tr @ [StorageNewClient]
      in case storage_NewClient sv of
           Some err \<Rightarrow> ((False, Some err), tr1)
         | None \<Rightarrow>
             (let tr2 = tr1 @ [BucketAttrs (storageBucket bp)]
              in (case Bucket_Attrs sv (storageBucket bp) of
                    Some err \<Rightarrow> ((False, Some err), tr2)
                  | None \<Rightarrow> ((True, None), tr2))))"

text \<open>\<open>validateParams\<close> returns \<open>true\<close> when a check failed.\<close>

definition validateParams :: "services \<Rightarrow> backupParams \<Rightarrow> trace \<Rightarrow> bool result \<times> trace" where
  "validateParams sv bp tr =
     (let ((validDataset, err), tr1) = validateDataset sv bp tr
      in if err \<noteq> None \<or> \<not> validDataset then
           (let (_, tr2) = logError ''Dataset does not exist or is not valid'' tr1
            in (Return True, tr2))
         else
           case validateTable sv bp tr1 of
             (Panic, tr2) \<Rightarrow> (Panic, tr2)
           | (Exit m, tr2) \<Rightarrow> (Exit m, tr2)
           | (Return (validTable, err), tr2) \<Rightarrow>
               if err \<noteq> None \<or> \<not> validTable then
                 (let (_, tr3) =
                        logError (Sprintf ''Table does not exist or is not valid: %v'' [verr err])
                          tr2
                  in (Return True, tr3))
               else
                 let ((ok, err), tr3) = validateStorageBucket sv bp tr2
                 in if \<not> ok \<or> err \<noteq> None then
                      (let (_, tr4) = logError ''Problem validating storage bucket'' tr3
                       in (Return True, tr4))
                    else (Return False, tr3))"

section \<open>The export job\<close>

text \<open>
  A \<open>*bigquery.Job\<close> may be nil: \<open>Job option\<close>. \<open>runExtractor\<close> overwrites the error of
  \<open>extractor.Run\<close> with the result of \<open>logError\<close> before it returns it.
\<close>

definition runExtractor ::
  "services \<Rightarrow> backupParams \<Rightarrow> Extractor \<Rightarrow> trace \<Rightarrow> (Job option \<times> error option) \<times> trace" where
  "runExtractor sv bp extractor tr =
     (let tr1 = tr @ [ExtractorRun extractor]
      in case Extractor_Run sv extractor of
           Inl e \<Rightarrow>
             let (err, tr2) =
                   logError (Sprintf ''Error starting backup of table %s.%s to cloud storage: %v''
                     [sourceDatasetID bp, backupTableID bp, verr (Some e)]) tr1
             in if err \<noteq> None then ((None, err), tr2) else ((None, err), tr2)
         | Inr job \<Rightarrow>
             let (err, tr2) =
                   logInfo (Sprintf ''Backup of table %s.%s started successfully, jobID: %s''
                     [sourceDatasetID bp, backupTableID bp, job]) tr1
             in if err \<noteq> None then ((None, err), tr2) else ((Some job, None), tr2))"

text \<open>
  In \<open>waitForJob\<close> the inner \<open>err := logError(...)\<close> shadows the error of the wait, so the
  value returned next to \<open>true\<close> is the logger's. Calling \<open>Wait\<close> through a nil job
  dereferences it.
\<close>

definition waitForJob ::
  "services \<Rightarrow> backupParams \<Rightarrow> Job option \<Rightarrow> trace \<Rightarrow> (bool \<times> error option) result \<times> trace"
  where
  "waitForJob sv bp job tr =
     (case job of
        None \<Rightarrow> (Panic, tr)
      | Some j \<Rightarrow>
          let tr1 = tr @ [JobWait j]
          in (case Job_Wait sv j of
               Inl e \<Rightarrow>
                 let (err, tr2) =
                       logError
                         (Sprintf ''Error waiting for backup of table %s.%s to cloud storage: %v''
                            [sourceDatasetID bp, backupTableID bp, verr (Some e)]) tr1
                 in if err \<noteq> None then (Return (False, err), tr2)
                    else (Return (True, err), tr2)
             | Inr status \<Rightarrow>
                 if status \<noteq> None then
                   let (err, tr2) =
                         logError
                           (Sprintf ''Error backing up table %s.%s to cloud storage: %v''
                              [sourceDatasetID bp, backupTableID bp, verr status]) tr1
                   in if err \<noteq> None then (Return (False, err), tr2)
                      else (Return (True, err), tr2)
                 else
                   let (err, tr2) =
                         logInfo (Sprintf ''Backup of table %s.%s completed successfully''
                           [sourceDatasetID bp, backupTableID bp]) tr1
                   in if err \<noteq> None then (Return (False, err), tr2)
                      else (Return (True, None), tr2)))"

definition backupBigQueryTable ::
  "services \<Rightarrow> backupParams \<Rightarrow> trace \<Rightarrow> (bool \<times> error option) result \<times> trace" where
  "backupBigQueryTable sv bp tr =
     (let extractor = setupExtractor sv bp;
          (err, tr1) =
            logInfo (Sprintf ''Starting backup of table %s.%s to cloud storage''
              [sourceDatasetID bp, backupTableID bp]) tr
      in if err \<noteq> None then (Return (False, err), tr1)
         else
           let ((job, err), tr2) = runExtractor sv bp extractor tr1
           in if err \<noteq> None then (Return (False, err), tr2)
              else
                case waitForJob sv bp job tr2 of
                  (Panic, tr3) \<Rightarrow> (Panic, tr3)
                | (Exit m, tr3) \<Rightarrow> (Exit m, tr3)
                | (Return (ok, err), tr3) \<Rightarrow>
                    if \<not> ok then (Return (False, err), tr3)
                    else (Return (True, None), tr3))"

section \<open>The handler\<close>

text \<open>
  \<open>bigQueryBackup\<close> writes nothing to the response; what it does is its list of events and
  the way it ends.
\<close>

definition bigQueryBackup :: "services \<Rightarrow> Request \<Rightarrow> unit result \<times> trace" where
  "bigQueryBackup sv r =
     (let bp0 = \<lparr>projectID = '''', sourceDatasetID = '''', backupTableID = '''',
                 storageBucket = '''', compressionType = '''', destinationFormat = ''''\<rparr>;
          (err, bp1) = setProjectID sv bp0
      in if err \<noteq> None then (Return (), [])
         else if setLogger bp1 \<noteq> None then
           (Exit (Sprintf ''Failed to set logger: %v'' [verr (setLogger bp1)]), [])
         else if setBigQueryClient bp1 \<noteq> None then (Return (), [])
         else
           let (hasError, bp2, tr1) = handleSetup r bp1 []
           in if hasError then (Return (), tr1)
              else
                case validateParams sv bp2 tr1 of
                  (Panic, tr2) \<Rightarrow> (Panic, tr2)
                | (Exit m, tr2) \<Rightarrow> (Exit m, tr2)
                | (Return hasError, tr2) \<Rightarrow>
                    if hasError then (Return (), tr2)
                    else
                      let ((ok, err), bp3, tr3) = checkBackupFormat bp2 tr2
                      in if \<not> ok \<or> err \<noteq> None then
                           (let (err, tr4) =
                                  logError ''Problem validating destination format'' tr3
                            in if err \<noteq> None then (Return (), tr4) else (Return (), tr4))
                         else
                           (case backupBigQueryTable sv bp3 tr3 of
                             (Panic, tr4) \<Rightarrow> (Panic, tr4)
                           | (Exit m, tr4) \<Rightarrow> (Exit m, tr4)
                           | (Return (ok, err), tr4) \<Rightarrow>
                               if \<not> ok then
                                 (if err \<noteq> None then
                                    (let (err, tr5) =
                                           logError ''Problem backing up BigQuery table'' tr4
                                     in if err \<noteq> None then (Return (), tr5)
                                        else (Return (), tr5))
                                  else (Return (), tr4))
                               else (Return (), tr4)))"

section \<open>Vocabulary of the properties\<close>

text \<open>
  The remote events are the calls that look a resource up or submit or await a job; log
  entries and standard output are not.
\<close>

definition remote :: "event \<Rightarrow> bool" where
  "remote e = (case e of Log _ _ \<Rightarrow> False | Println _ \<Rightarrow> False | _ \<Rightarrow> True)"

text \<open>
  The first required field that is empty, in the order dataset name, table name, bucket
  name, as the specification words it.
\<close>

definition firstMissing :: "postBodyParams \<Rightarrow> string" where
  "firstMissing pb =
     (if DatasetName pb = '''' then ''DatasetName''
      else if TableName pb = '''' then ''TableName''
      else ''StorageBucket'')"

text \<open>
  A concrete deployment used to instantiate the theorems: project \<open>proj1\<close> on 1 November
  2026, every dataset, table and bucket present, jobs starting as \<open>job42\<close> and finishing
  without error.
\<close>

definition example_services :: services where
  "example_services =
     \<lparr>Getenv = (\<lambda>k. if k = ''GCP_PROJECT'' then ''proj1'' else ''''),
      time_Now = \<lparr>Year = 2026, Month = 11, Day = 1\<rparr>,
      Dataset_Metadata = (\<lambda>d. Inr (''proj1:'' @ d)),
      Table_Metadata = (\<lambda>d t. Inr (''proj1:'' @ d @ ''.'' @ t)),
      storage_NewClient = None,
      Bucket_Attrs = (\<lambda>b. None),
      Extractor_Run = (\<lambda>x. Inr ''job42''),
      Job_Wait = (\<lambda>j. Inr None)\<rparr>"

definition example_params :: "string \<Rightarrow> string \<Rightarrow> backupParams" where
  "example_params format compression =
     \<lparr>projectID = ''proj1'', sourceDatasetID = ''sales'', backupTableID = ''orders'',
      storageBucket = ''backups-bucket'', compressionType = compression,
      destinationFormat = format\<rparr>"

definition example_body :: "string \<Rightarrow> string \<Rightarrow> string \<Rightarrow> postBodyParams" where
  "example_body d t b =
     \<lparr>DatasetName = d, TableName = t, StorageBucket = b, Format = '''', Compression = ''''\<rparr>"

text \<open>
  A request with an empty body: the decoder fills no field and returns \<open>io.EOF\<close>, whose
  message is \<open>EOF\<close>.
\<close>

definition empty_body_request :: Request where
  "empty_body_request = \<lparr>Decode = (example_body '''' '''' '''', Some ''EOF'')\<rparr>"

text \<open>
  The same deployment started with a project identifier of three spaces, which the
  start-up check for an empty variable lets through.
\<close>

definition blank_project_services :: services where
  "blank_project_services =
     example_services\<lparr>Getenv := (\<lambda>k. if k = ''GCP_PROJECT'' then ''   '' else '''')\<rparr>"

text \<open>The same deployment with an export job that ends in a failure status.\<close>

definition failing_job_services :: services where
  "failing_job_services =
     example_services\<lparr>Job_Wait := (\<lambda>j. Inr (Some ''quota exceeded''))\<rparr>"

text \<open>
  The same deployment where the lookups succeed but answer with identifiers of another
  project, \<open>proj2\<close>.
\<close>

definition other_project_services :: services where
  "other_project_services =
     example_services\<lparr>Dataset_Metadata := (\<lambda>d. Inr (''proj2:'' @ d)),
                       Table_Metadata := (\<lambda>d t. Inr (''proj2:'' @ d @ ''.'' @ t))\<rparr>"

text \<open>The log entry of the handler's branch for a format that failed validation.\<close>

definition formatAbort :: event where
  "formatAbort = Log Error ''Problem validating destination format''"

section \<open>Properties of the format and compression resolution\<close>

lemma checkBackupFormat_ret: "fst (checkBackupFormat bp tr) = (True, None)"
  by (simp add: checkBackupFormat_def setCSVAndJSONCompression_def
      setAvroParquetCompression_def logInfo_def Let_def)

lemma resolved_eq:
  "resolved bp tr =
     (if destinationFormat bp = csvFormat \<or> destinationFormat bp = jsonFormat
      then bp\<lparr>compressionType := gzipCompression\<rparr>
      else if destinationFormat bp = avroFormat \<or> destinationFormat bp = parquetFormat
      then (if compressionType bp = '''' then bp\<lparr>compressionType := snappyCompression\<rparr>
            else bp)
      else bp\<lparr>destinationFormat := avroFormat, compressionType := snappyCompression\<rparr>)"
  by (simp add: resolved_def checkBackupFormat_def setCSVAndJSONCompression_def
      setAvroParquetCompression_def logInfo_def Let_def)

text \<open>
  C5. When the requested format is exactly \<open>CSV\<close> or \<open>JSON\<close>, \<open>checkBackupFormat\<close> leaves the
  compression \<open>GZIP\<close> whatever compression the caller supplied, and keeps the format.
\<close>

theorem csv_json_compression_is_gzip:
  "destinationFormat bp = ''CSV'' \<or> destinationFormat bp = ''JSON'' \<Longrightarrow>
   compressionType (resolved bp tr) = ''GZIP''
   \<and> destinationFormat (resolved bp tr) = destinationFormat bp"
  by (auto simp add: resolved_eq format_defs compression_defs)

theorem csv_json_compression_is_gzip_witness:
  "destinationFormat (example_params ''CSV'' ''ZSTD'') = ''CSV''
   \<and> compressionType (example_params ''CSV'' ''ZSTD'') = ''ZSTD''
   \<and> compressionType (resolved (example_params ''CSV'' ''ZSTD'') []) = ''GZIP''"
  using csv_json_compression_is_gzip [of "example_params ''CSV'' ''ZSTD''" "[]"]
  by (simp add: example_params_def)

text \<open>
  C6. When the requested format is \<open>AVRO\<close> or \<open>PARQUET\<close>: with no compression supplied the
  resolved compression is \<open>SNAPPY\<close>, and a supplied \<open>SNAPPY\<close> or \<open>DEFLATE\<close> is kept.
\<close>

theorem avro_parquet_default_and_kept:
  "destinationFormat bp = ''AVRO'' \<or> destinationFormat bp = ''PARQUET'' \<Longrightarrow>
   (compressionType bp = '''' \<longrightarrow> compressionType (resolved bp tr) = ''SNAPPY'')
   \<and> (compressionType bp = ''SNAPPY'' \<or> compressionType bp = ''DEFLATE'' \<longrightarrow>
        compressionType (resolved bp tr) = compressionType bp)"
  by (auto simp add: resolved_eq format_defs compression_defs)

theorem avro_parquet_default_and_kept_witness:
  "destinationFormat (example_params ''AVRO'' '''') = ''AVRO''
   \<and> compressionType (example_params ''AVRO'' '''') = ''''
   \<and> compressionType (resolved (example_params ''AVRO'' '''') []) = ''SNAPPY''
   \<and> destinationFormat (example_params ''PARQUET'' ''DEFLATE'') = ''PARQUET''
   \<and> compressionType (example_params ''PARQUET'' ''DEFLATE'') = ''DEFLATE''
   \<and> compressionType (resolved (example_params ''PARQUET'' ''DEFLATE'') []) = ''DEFLATE''"
  using avro_parquet_default_and_kept [of "example_params ''AVRO'' ''''" "[]"]
    avro_parquet_default_and_kept [of "example_params ''PARQUET'' ''DEFLATE''" "[]"]
  by (simp add: example_params_def)

text \<open>
  C7. A requested format outside \<open>CSV\<close>, \<open>JSON\<close>, \<open>AVRO\<close>, \<open>PARQUET\<close> (the empty string
  included) resolves to \<open>AVRO\<close> with \<open>SNAPPY\<close>; hence the format \<open>checkBackupFormat\<close> leaves is
  always one of the four.
\<close>

theorem unknown_format_resolves_to_avro_snappy:
  "(destinationFormat bp \<notin> {''CSV'', ''JSON'', ''AVRO'', ''PARQUET''} \<longrightarrow>
      destinationFormat (resolved bp tr) = ''AVRO''
      \<and> compressionType (resolved bp tr) = ''SNAPPY'')
   \<and> destinationFormat (resolved bp tr) \<in> {''CSV'', ''JSON'', ''AVRO'', ''PARQUET''}"
  by (auto simp add: resolved_eq format_defs compression_defs)

theorem unknown_format_resolves_to_avro_snappy_witness:
  "destinationFormat (example_params '''' ''GZIP'') \<notin> {''CSV'', ''JSON'', ''AVRO'', ''PARQUET''}
   \<and> destinationFormat (resolved (example_params '''' ''GZIP'') []) = ''AVRO''
   \<and> compressionType (resolved (example_params '''' ''GZIP'') []) = ''SNAPPY''"
  using unknown_format_resolves_to_avro_snappy [of "example_params '''' ''GZIP''" "[]"]
  by (simp add: example_params_def)

text \<open>
  C10. \<open>checkBackupFormat\<close> is idempotent: applied to its own result, from any log and so
  in particular from the one its first application leaves, it changes neither the format
  nor the compression.
\<close>

theorem checkBackupFormat_idempotent:
  "destinationFormat (resolved (resolved bp tr) tr') = destinationFormat (resolved bp tr)
   \<and> compressionType (resolved (resolved bp tr) tr') = compressionType (resolved bp tr)
   \<and> resolved (resolved bp tr) (snd (snd (checkBackupFormat bp tr))) = resolved bp tr"
  by (simp add: resolved_eq format_defs compression_defs)

text \<open>
  C2. The claim that \<open>AVRO\<close> or \<open>PARQUET\<close> with a supplied compression outside \<open>SNAPPY\<close>,
  \<open>DEFLATE\<close> resolves to \<open>SNAPPY\<close> fails on the code: the reset sits inside the branch for
  an empty compression, so a supplied \<open>ZSTD\<close> passes through unchanged.
\<close>

theorem avro_zstd_is_kept:
  "compressionType (resolved (example_params ''AVRO'' ''ZSTD'') []) = ''ZSTD''
   \<and> destinationFormat (resolved (example_params ''AVRO'' ''ZSTD'') []) = ''AVRO''
   \<and> compressionType (resolved (example_params ''PARQUET'' ''ZSTD'') []) = ''ZSTD''"
  by (simp add: resolved_eq example_params_def format_defs compression_defs)

section \<open>Properties of the request validation\<close>

lemma handleSetup_missing:
  assumes "DatasetName pb = '''' \<or> TableName pb = '''' \<or> StorageBucket pb = ''''"
    and "Decode r = (pb, None)"
  shows "handleSetup r bp tr =
           (True, bp,
            tr @ [Log Error (''Missing '' @ firstMissing pb @ '' in Post Body''),
                  Log Error ''Invalid POST body: <nil>''])"
  using assms
  by (auto simp add: handleSetup_def decodePostBody_def checkPostBody_def logError_def
      firstMissing_def verr_def)

lemma handleSetup_decode_error:
  assumes "Decode r = (pb, Some e)"
  shows "handleSetup r bp tr =
           (True, bp, tr @ [Log Error (''Failed to decode POST body: '' @ e)])"
  using assms
  by (simp add: handleSetup_def decodePostBody_def logError_def verr_def)

lemma TrimSpace_Nil: "TrimSpace [] = []"
  by code_simp

lemma TrimSpace_examples:
  "TrimSpace ''proj1'' = ''proj1''"
  "TrimSpace ''   '' = []"
  "TrimSpace [CHR 0xC2, CHR 0xA0] = []"
  "TrimSpace [CHR 0x20, CHR 0xE2, CHR 0x80, CHR 0x83, CHR ''p'', CHR 0xC2, CHR 0x85, CHR 0x0A]
     = ''p''"
  by code_simp+

text \<open>
  C4 as it is worded does not hold of the code: a missing field is not reported for every
  request that lacks one. A request with an empty body has no dataset name, and the
  handler logs the decoder's failure and nothing about the field; a request that lacks the
  dataset name in a process whose project identifier is blank is dropped with no log
  entry at all.
\<close>

theorem missing_field_not_always_reported_counterexample:
  "DatasetName (fst (Decode empty_body_request)) = ''''
   \<and> snd (bigQueryBackup example_services empty_body_request)
       = [Log Error ''Failed to decode POST body: EOF'']
   \<and> Log Error ''Missing DatasetName in Post Body''
       \<notin> set (snd (bigQueryBackup example_services empty_body_request))
   \<and> DatasetName (example_body '''' ''orders'' ''backups-bucket'') = ''''
   \<and> snd (bigQueryBackup blank_project_services
            \<lparr>Decode = (example_body '''' ''orders'' ''backups-bucket'', None)\<rparr>) = []"
  by code_simp

text \<open>
  C4, amended. When the decoded body has an empty dataset name, table name or bucket name,
  the handler returns without a single remote event: no dataset, table or bucket lookup
  and no job submission. What it logs depends on how far it gets. With a project
  identifier that is not blank and a body that decodes, its whole log is the entry naming
  the first empty field, in the order dataset name, table name, bucket name, followed by
  the entry for the invalid body. With a body that does not decode, its whole log is the
  decoder's failure. With a blank project identifier it logs nothing.
\<close>

theorem missing_field_aborts_before_remote_checks:
  assumes "DatasetName pb = '''' \<or> TableName pb = '''' \<or> StorageBucket pb = ''''"
    and "Decode r = (pb, derr)"
  shows "fst (bigQueryBackup sv r) = Return ()
       \<and> (\<forall>e \<in> set (snd (bigQueryBackup sv r)). \<not> remote e)
       \<and> (TrimSpace (Getenv sv ''GCP_PROJECT'') \<noteq> '''' \<and> derr = None \<longrightarrow>
            snd (bigQueryBackup sv r) =
              [Log Error (''Missing '' @ firstMissing pb @ '' in Post Body''),
               Log Error ''Invalid POST body: <nil>''])
       \<and> (TrimSpace (Getenv sv ''GCP_PROJECT'') \<noteq> '''' \<and> derr = Some e \<longrightarrow>
            snd (bigQueryBackup sv r) = [Log Error (''Failed to decode POST body: '' @ e)])
       \<and> (TrimSpace (Getenv sv ''GCP_PROJECT'') = '''' \<longrightarrow> snd (bigQueryBackup sv r) = [])"
proof (cases derr)
  case None
  with assms show ?thesis
    by (auto simp add: bigQueryBackup_def setProjectID_def setLogger_def setBigQueryClient_def
        handleSetup_missing Let_def remote_def TrimSpace_Nil)
next
  case (Some e')
  with assms show ?thesis
    by (auto simp add: bigQueryBackup_def setProjectID_def setLogger_def setBigQueryClient_def
        handleSetup_decode_error Let_def remote_def TrimSpace_Nil)
qed

theorem missing_field_aborts_before_remote_checks_witness:
  "TableName (example_body ''sales'' '''' '''') = ''''
   \<and> StorageBucket (example_body ''sales'' '''' '''') = ''''
   \<and> TrimSpace (Getenv example_services ''GCP_PROJECT'') \<noteq> ''''
   \<and> fst (bigQueryBackup example_services
            \<lparr>Decode = (example_body ''sales'' '''' '''', None)\<rparr>) = Return ()
   \<and> filter remote (snd (bigQueryBackup example_services
                           \<lparr>Decode = (example_body ''sales'' '''' '''', None)\<rparr>)) = []
   \<and> snd (bigQueryBackup example_services \<lparr>Decode = (example_body ''sales'' '''' '''', None)\<rparr>) =
       [Log Error ''Missing TableName in Post Body'', Log Error ''Invalid POST body: <nil>'']
   \<and> snd (bigQueryBackup example_services
            \<lparr>Decode = (example_body ''sales'' '''' '''', Some ''unexpected EOF'')\<rparr>) =
       [Log Error ''Failed to decode POST body: unexpected EOF'']
   \<and> TrimSpace (Getenv blank_project_services ''GCP_PROJECT'') = ''''
   \<and> snd (bigQueryBackup blank_project_services
            \<lparr>Decode = (example_body ''sales'' '''' '''', None)\<rparr>) = []"
  using missing_field_aborts_before_remote_checks
    [of "example_body ''sales'' '''' ''''"
        "\<lparr>Decode = (example_body ''sales'' '''' '''', None)\<rparr>" None example_services]
    missing_field_aborts_before_remote_checks
    [of "example_body ''sales'' '''' ''''"
        "\<lparr>Decode = (example_body ''sales'' '''' '''', Some ''unexpected EOF'')\<rparr>"
        "Some ''unexpected EOF''" example_services "''unexpected EOF''"]
    missing_field_aborts_before_remote_checks
    [of "example_body ''sales'' '''' ''''"
        "\<lparr>Decode = (example_body ''sales'' '''' '''', None)\<rparr>" None blank_project_services]
  by (simp add: example_body_def example_services_def blank_project_services_def
      firstMissing_def TrimSpace_examples remote_def)

section \<open>Properties of the resource validation\<close>

text \<open>
  C8. The dataset check succeeds exactly when the metadata fetch returns without error
  and the identifier it returns is \<open>project:dataset\<close>; the table check succeeds exactly when
  the fetch returns without error and the identifier is \<open>project:dataset.table\<close>. A fetch
  that succeeds with the identifier of another project \<open>p\<close> is rejected.
\<close>

theorem validation_requires_exact_identifier:
  "(fst (validateDataset sv bp tr) = (True, None) \<longleftrightarrow>
      Dataset_Metadata sv (sourceDatasetID bp) = Inr (projectID bp @ '':'' @ sourceDatasetID bp))
   \<and> (fst (validateTable sv bp tr) = Return (True, None) \<longleftrightarrow>
      Table_Metadata sv (sourceDatasetID bp) (backupTableID bp)
        = Inr (projectID bp @ '':'' @ sourceDatasetID bp @ ''.'' @ backupTableID bp))
   \<and> (p \<noteq> projectID bp
        \<and> Dataset_Metadata sv (sourceDatasetID bp) = Inr (p @ '':'' @ sourceDatasetID bp)
      \<longrightarrow> fst (validateDataset sv bp tr) = (False, None))
   \<and> (p \<noteq> projectID bp
        \<and> Table_Metadata sv (sourceDatasetID bp) (backupTableID bp)
            = Inr (p @ '':'' @ sourceDatasetID bp @ ''.'' @ backupTableID bp)
      \<longrightarrow> fst (validateTable sv bp tr) = Return (False, None))"
  by (auto simp add: validateDataset_def validateTable_def Let_def split: sum.splits)

theorem validation_requires_exact_identifier_witness:
  "''proj2'' \<noteq> projectID (example_params ''AVRO'' '''')
   \<and> Dataset_Metadata other_project_services (sourceDatasetID (example_params ''AVRO'' ''''))
       = Inr (''proj2'' @ '':'' @ sourceDatasetID (example_params ''AVRO'' ''''))
   \<and> fst (validateDataset other_project_services (example_params ''AVRO'' '''') []) = (False, None)
   \<and> Table_Metadata other_project_services (sourceDatasetID (example_params ''AVRO'' ''''))
         (backupTableID (example_params ''AVRO'' ''''))
       = Inr (''proj2'' @ '':'' @ sourceDatasetID (example_params ''AVRO'' '''') @ ''.''
              @ backupTableID (example_params ''AVRO'' ''''))
   \<and> fst (validateTable other_project_services (example_params ''AVRO'' '''') [])
       = Return (False, None)"
  using validation_requires_exact_identifier
    [of other_project_services "example_params ''AVRO'' ''''" "[]" "''proj2''"]
  by (simp add: other_project_services_def example_services_def example_params_def)

section \<open>Properties of the export\<close>

lemma ToLower_formats:
  "ToLower ''CSV'' = ''csv''" "ToLower ''JSON'' = ''json''"
  "ToLower ''AVRO'' = ''avro''" "ToLower ''PARQUET'' = ''parquet''"
  by code_simp+

lemma Format_example: "Format_2006_01_02 (time_Now example_services) = ''2026-11-01''"
  by code_simp

text \<open>
  The shape of the date: for a year below 10000 it is ten characters long with a hyphen
  after the year and after the month.
\<close>

lemma length_itoa_le: "0 < k \<Longrightarrow> n < 10 ^ k \<Longrightarrow> length (itoa n) \<le> k"
proof (induction k arbitrary: n)
  case 0
  then show ?case by simp
next
  case (Suc k)
  show ?case
  proof (cases "n < 10")
    case True
    then show ?thesis by (subst itoa.simps) simp
  next
    case False
    with Suc.prems have k: "0 < k" by (cases k) auto
    from Suc.prems have "n div 10 < 10 ^ k"
      by (simp add: less_mult_imp_div_less mult.commute)
    from Suc.IH [OF k this] False show ?thesis by (subst itoa.simps) simp
  qed
qed

lemma length_appendInt: "0 < w \<Longrightarrow> x < 10 ^ w \<Longrightarrow> length (appendInt x w) = w"
  using length_itoa_le [of w x] by (simp add: appendInt_def Let_def)

lemma Format_2006_01_02_shape:
  assumes "Year t < 10000" "Month t < 100" "Day t < 100"
  shows "length (Format_2006_01_02 t) = 10
         \<and> Format_2006_01_02 t ! 4 = CHR ''-'' \<and> Format_2006_01_02 t ! 7 = CHR ''-''"
proof -
  have y: "length (appendInt (Year t) 4) = 4" using assms by (simp add: length_appendInt)
  have m: "length (appendInt (Month t) 2) = 2" using assms by (simp add: length_appendInt)
  have d: "length (appendInt (Day t) 2) = 2" using assms by (simp add: length_appendInt)
  show ?thesis
    by (simp add: Format_2006_01_02_def y m d nth_append)
qed

lemma gcsURI_eq:
  "URIs (Dst (setupExtractor sv bp)) =
     [''gs://'' @ storageBucket bp @ ''/'' @ sourceDatasetID bp @ ''/''
        @ backupTableID bp @ ''.'' @ Format_2006_01_02 (time_Now sv) @ ''/''
        @ backupTableID bp @ ''-*.'' @ ToLower (destinationFormat bp)]"
  by (simp add: setupExtractor_def Let_def)

text \<open>
  C3. For all parameters, and so for resolved ones, the extractor's only destination URI
  is \<open>gs://{bucket}/{dataset}/{table}.{date}/{table}-*.{format}\<close>, where the date is the
  current date in the layout year-month-day and the format is the destination format in
  lower case; for resolved parameters that is one of \<open>csv\<close>, \<open>json\<close>, \<open>avro\<close>, \<open>parquet\<close>.
  On 1 November 2026 the default request for table \<open>sales.orders\<close> and bucket
  \<open>backups-bucket\<close> is exported to \<open>gs://backups-bucket/sales/orders.2026-11-01/orders-*.avro\<close>.
\<close>

theorem setupExtractor_destination_uri:
  "URIs (Dst (setupExtractor sv bp)) =
     [''gs://'' @ storageBucket bp @ ''/'' @ sourceDatasetID bp @ ''/''
        @ backupTableID bp @ ''.'' @ Format_2006_01_02 (time_Now sv) @ ''/''
        @ backupTableID bp @ ''-*.'' @ ToLower (destinationFormat bp)]
   \<and> ToLower (destinationFormat (resolved bp tr)) \<in> {''csv'', ''json'', ''avro'', ''parquet''}
   \<and> URIs (Dst (setupExtractor example_services (resolved (example_params '''' '''') []))) =
       [''gs://backups-bucket/sales/orders.2026-11-01/orders-*.avro'']"
proof -
  have "ToLower (destinationFormat (resolved bp tr))
          \<in> {''csv'', ''json'', ''avro'', ''parquet''}"
    by (simp add: resolved_eq format_defs ToLower_formats)
  moreover
  have "URIs (Dst (setupExtractor example_services (resolved (example_params '''' '''') []))) =
          [''gs://backups-bucket/sales/orders.2026-11-01/orders-*.avro'']"
    by (simp add: gcsURI_eq resolved_eq format_defs compression_defs example_params_def
        ToLower_formats Format_example)
  ultimately show ?thesis
    using gcsURI_eq by simp
qed

text \<open>
  C1. The claim that a job ending in a failure status makes \<open>waitForJob\<close> and
  \<open>backupBigQueryTable\<close> return a failure does not hold of the code. With a job at hand,
  \<open>waitForJob\<close> returns \<open>(true, nil)\<close> whatever the wait reports, because the error it
  tests and returns is the logger's. For the job \<open>job42\<close> that ends with
  \<open>quota exceeded\<close>: the failure is logged, \<open>waitForJob\<close> and \<open>backupBigQueryTable\<close> return
  \<open>(true, nil)\<close>, and the handler returns without its entry for a failed backup.
\<close>

theorem job_failure_is_returned_as_success:
  "fst (waitForJob sv bp (Some j) tr) = Return (True, None)
   \<and> waitForJob failing_job_services (example_params ''AVRO'' ''SNAPPY'') (Some ''job42'') [] =
       (Return (True, None),
        [JobWait ''job42'',
         Log Error ''Error backing up table sales.orders to cloud storage: quota exceeded''])
   \<and> fst (backupBigQueryTable failing_job_services (example_params ''AVRO'' ''SNAPPY'') [])
       = Return (True, None)
   \<and> fst (bigQueryBackup failing_job_services
            \<lparr>Decode = (example_body ''sales'' ''orders'' ''backups-bucket'', None)\<rparr>) = Return ()
   \<and> Log Error ''Problem backing up BigQuery table''
       \<notin> set (snd (bigQueryBackup failing_job_services
                    \<lparr>Decode = (example_body ''sales'' ''orders'' ''backups-bucket'', None)\<rparr>))"
proof -
  have "fst (waitForJob sv bp (Some j) tr) = Return (True, None)"
    by (simp add: waitForJob_def logError_def logInfo_def Let_def split: sum.splits)
  moreover
  have "waitForJob failing_job_services (example_params ''AVRO'' ''SNAPPY'') (Some ''job42'') [] =
       (Return (True, None),
        [JobWait ''job42'',
         Log Error ''Error backing up table sales.orders to cloud storage: quota exceeded''])"
    by code_simp
  moreover
  have "fst (backupBigQueryTable failing_job_services (example_params ''AVRO'' ''SNAPPY'') [])
       = Return (True, None)"
    by code_simp
  moreover
  have "fst (bigQueryBackup failing_job_services
            \<lparr>Decode = (example_body ''sales'' ''orders'' ''backups-bucket'', None)\<rparr>) = Return ()
   \<and> Log Error ''Problem backing up BigQuery table''
       \<notin> set (snd (bigQueryBackup failing_job_services
                    \<lparr>Decode = (example_body ''sales'' ''orders'' ''backups-bucket'', None)\<rparr>))"
    by code_simp
  ultimately show ?thesis by blast
qed

theorem job_failure_is_returned_as_success_witness:
  "Job_Wait failing_job_services ''job42'' = Inr (Some ''quota exceeded'')
   \<and> fst (waitForJob failing_job_services (example_params ''AVRO'' ''SNAPPY'') (Some ''job42'')
            [JobWait ''job41'']) = Return (True, None)"
  using job_failure_is_returned_as_success
    [of failing_job_services "example_params ''AVRO'' ''SNAPPY''" "''job42''"
        "[JobWait ''job41'']"]
  by (simp add: failing_job_services_def)

section \<open>The handler never takes the format-validation abort\<close>

lemma handleSetup_no_formatAbort:
  "formatAbort \<notin> set tr \<Longrightarrow> formatAbort \<notin> set (snd (snd (handleSetup r bp tr)))"
  by (auto simp add: handleSetup_def decodePostBody_def checkPostBody_def logError_def
      logInfo_def verr_def formatAbort_def Let_def split: prod.splits option.splits)

lemma validateParams_no_formatAbort:
  "formatAbort \<notin> set tr \<Longrightarrow> formatAbort \<notin> set (snd (validateParams sv bp tr))"
  by (auto simp add: validateParams_def validateDataset_def validateTable_def
      validateStorageBucket_def logError_def verr_def formatAbort_def Let_def
      split: prod.splits option.splits sum.splits result.splits)

lemma checkBackupFormat_no_formatAbort:
  "formatAbort \<notin> set tr \<Longrightarrow> formatAbort \<notin> set (snd (snd (checkBackupFormat bp tr)))"
  by (auto simp add: checkBackupFormat_def setCSVAndJSONCompression_def
      setAvroParquetCompression_def logInfo_def formatAbort_def Let_def)

lemma backupBigQueryTable_no_formatAbort:
  "formatAbort \<notin> set tr \<Longrightarrow> formatAbort \<notin> set (snd (backupBigQueryTable sv bp tr))"
  by (auto simp add: backupBigQueryTable_def runExtractor_def waitForJob_def
      logInfo_def logError_def verr_def formatAbort_def Let_def
      split: prod.splits option.splits sum.splits result.splits)

lemma bigQueryBackup_no_formatAbort: "formatAbort \<notin> set (snd (bigQueryBackup sv r))"
proof -
  have nil: "formatAbort \<notin> set []" by simp
  have hs: "\<And>bp h bp' tr'. handleSetup r bp [] = (h, bp', tr') \<Longrightarrow> formatAbort \<notin> set tr'"
    using handleSetup_no_formatAbort [OF nil] by (metis snd_conv)
  have vp: "\<And>bp tr x tr'. formatAbort \<notin> set tr \<Longrightarrow> validateParams sv bp tr = (x, tr')
              \<Longrightarrow> formatAbort \<notin> set tr'"
    using validateParams_no_formatAbort by (metis snd_conv)
  have cf: "\<And>bp tr ok err bp' tr'. formatAbort \<notin> set tr
              \<Longrightarrow> checkBackupFormat bp tr = ((ok, err), bp', tr')
              \<Longrightarrow> formatAbort \<notin> set tr' \<and> ok \<and> err = None"
    using checkBackupFormat_no_formatAbort checkBackupFormat_ret
    by (metis fst_conv snd_conv prod.inject)
  have bt: "\<And>bp tr x tr'. formatAbort \<notin> set tr \<Longrightarrow> backupBigQueryTable sv bp tr = (x, tr')
              \<Longrightarrow> formatAbort \<notin> set tr'"
    using backupBigQueryTable_no_formatAbort by (metis snd_conv)
  have pb: "formatAbort \<noteq> Log Error ''Problem backing up BigQuery table''"
    by (simp add: formatAbort_def)
  show ?thesis
    unfolding bigQueryBackup_def Let_def setLogger_def setBigQueryClient_def logError_def
    using pb by (auto split: prod.splits result.splits dest: hs vp cf bt)
qed

text \<open>
  C9. The logging helpers return \<open>nil\<close> for every message, \<open>checkBackupFormat\<close> returns
  \<open>(true, nil)\<close> for every destination format and compression type, and therefore no run
  of the handler, for any services and any request, logs
  \<open>Problem validating destination format\<close>: that branch is never taken.
\<close>

theorem checkBackupFormat_always_ok:
  "fst (logInfo msg tr) = None
   \<and> fst (logError msg tr) = None
   \<and> fst (checkBackupFormat bp tr) = (True, None)
   \<and> Log Error ''Problem validating destination format'' \<notin> set (snd (bigQueryBackup sv r))"
  using checkBackupFormat_ret [of bp tr] bigQueryBackup_no_formatAbort [of sv r]
  by (simp add: logInfo_def logError_def formatAbort_def)

theorem checkBackupFormat_always_ok_witness:
  "fst (checkBackupFormat (example_params ''XML'' ''ZSTD'') []) = (True, None)
   \<and> Log Error ''Problem validating destination format''
       \<notin> set (snd (bigQueryBackup example_services
                    \<lparr>Decode = (example_body ''sales'' ''orders'' ''backups-bucket'', None)\<rparr>))"
  using checkBackupFormat_always_ok
    [of "''Backup format''" "[]" "example_params ''XML'' ''ZSTD''" example_services
        "\<lparr>Decode = (example_body ''sales'' ''orders'' ''backups-bucket'', None)\<rparr>"]
  by simp

end
